theory Spec2Isabelle
  imports Main "HOL-Library.Char_ord" "HOL-Library.List_Lexorder" "HOL-Library.Multiset" "HOL-Library.Sublist"
begin

section \<open>Data model\<close>

text \<open>
  A Go \<open>error\<close> value is modelled by its message. A function that returns \<open>error\<close>
  returns \<open>error option\<close> here, \<open>None\<close> being \<open>nil\<close>.
\<close>

datatype error = Error string

fun msg :: "error \<Rightarrow> string" where
  "msg (Error s) = s"

text \<open>
  \<open>type Migration struct\<close> of deadigations.go. The two actions have the Go type
  \<open>func(tx *gorm.DB) error\<close>; the wrapper never calls them, it only stores and forwards
  them, so their type is a parameter.
\<close>

record 'a Migration =
  ID :: string
  Description :: string
  Migrate :: 'a
  Rollback :: 'a

text \<open>\<open>gormigrate.Migration\<close>, restricted to the three fields the wrapper sets.\<close>

record 'a gormigrate_Migration =
  gm_ID :: string
  gm_Migrate :: 'a
  gm_Rollback :: 'a

record gormigrate_Options =
  TableName :: string
  IDColumnName :: string
  IDColumnSize :: nat
  UseTransaction :: bool
  ValidateUnknownMigrations :: bool

text \<open>\<open>type MigrationTool struct\<close>; the database handle \<open>*gorm.DB\<close> is a parameter.\<close>

record 'd MigrationTool =
  db :: 'd
  options :: gormigrate_Options

text \<open>
  What the wrapper does to the external migration engine is recorded as a trace:
  the construction \<open>gormigrate.New(db, options, migrations)\<close> with its three arguments,
  and the calls of \<open>Migrate()\<close> and \<open>RollbackLast()\<close> on the migrator.
\<close>

datatype ('d, 'a) engine_call =
    gormigrate_New 'd gormigrate_Options "'a gormigrate_Migration list"
  | migrator_Migrate
  | migrator_RollbackLast

text \<open>The wall clock read by \<open>time.Now()\<close>, as calendar fields.\<close>

record clock =
  year :: nat
  month :: nat
  day :: nat
  hour :: nat
  minute :: nat
  second :: nat

text \<open>
  The process state: the three package-level variables \<open>once\<close>, \<open>instance\<close> and
  \<open>registeredMigrations\<close>, the objects allocated by \<open>&MigrationTool{...}\<close> (a pointer is
  an index into \<open>heap\<close>, \<open>None\<close> is \<open>nil\<close>), and the observable effects: the lines
  written by package \<open>log\<close>, the connection strings given to \<open>gorm.Open\<close>, the calls
  into the engine, and the file system (directories and file contents by path).
  The variable \<open>instance\<close> is \<open>the_instance\<close> here, \<open>instance\<close> being a keyword.
\<close>

record ('d, 'a) world =
  once :: bool
  the_instance :: "nat option"
  registeredMigrations :: "'a gormigrate_Migration list"
  heap :: "'d MigrationTool list"
  logged :: "string list"
  opened :: "string list"
  engine :: "('d, 'a) engine_call list"
  dirs :: "string set"
  files :: "string \<rightharpoonup> string"

text \<open>
  The behaviour of everything outside the repository is a parameter: whether
  \<open>gorm.Open\<close> succeeds on a connection string, what the engine answers, the clock, and
  which file-system operations fail (permissions, disk).
\<close>

record ('d, 'a) env =
  gorm_Open :: "string \<Rightarrow> error + 'd"
  engine_Migrate :: "'d \<Rightarrow> gormigrate_Options \<Rightarrow> 'a gormigrate_Migration list \<Rightarrow> error option"
  engine_RollbackLast :: "'d \<Rightarrow> gormigrate_Options \<Rightarrow> 'a gormigrate_Migration list \<Rightarrow> error option"
  Now :: clock
  MkdirAll_fault :: "string \<Rightarrow> error option"
  Create_fault :: "string \<Rightarrow> error option"
  WriteString_fault :: "string \<Rightarrow> error option"

text \<open>
  How a call ends: it returns a value, the process exits through \<open>log.Fatal\<close>
  (\<open>os.Exit(1)\<close> after the message is logged), or a nil pointer is dereferenced.
\<close>

datatype 'r result = Returns 'r | Fatal | Panic

section \<open>Logging and pointers\<close>

definition log_Println :: "string \<Rightarrow> ('d, 'a) world \<Rightarrow> ('d, 'a) world" where
  "log_Println s w = w\<lparr>logged := logged w @ [s]\<rparr>"

definition deref :: "('d, 'a) world \<Rightarrow> nat option \<Rightarrow> 'd MigrationTool option" where
  "deref w p =
     (case p of
        None \<Rightarrow> None
      | Some a \<Rightarrow> if a < length (heap w) then Some (heap w ! a) else None)"

section \<open>The registry\<close>

definition RegisterMigration :: "'a Migration \<Rightarrow> ('d, 'a) world \<Rightarrow> ('d, 'a) world" where
  "RegisterMigration migration w =
     (let gormMigration =
            \<lparr>gm_ID = ID migration, gm_Migrate = Migrate migration, gm_Rollback = Rollback migration\<rparr>
      in w\<lparr>registeredMigrations := registeredMigrations w @ [gormMigration]\<rparr>)"

section \<open>Apply and rollback\<close>

definition MigrateUp ::
  "('d, 'a) env \<Rightarrow> nat option \<Rightarrow> ('d, 'a) world \<Rightarrow> error option result \<times> ('d, 'a) world" where
  "MigrateUp e m w =
     (if length (registeredMigrations w) = 0
      then (Returns None, log_Println ''No migrations registered'' w)
      else case deref w m of
        None \<Rightarrow> (Panic, w)
      | Some t \<Rightarrow>
          let w1 = w\<lparr>engine := engine w @
                     [gormigrate_New (db t) (options t) (registeredMigrations w)]\<rparr>;
              w2 = w1\<lparr>engine := engine w1 @ [migrator_Migrate]\<rparr>
          in (case engine_Migrate e (db t) (options t) (registeredMigrations w) of
                Some err \<Rightarrow> (Returns (Some err), w2)
              | None \<Rightarrow> (Returns None, log_Println ''Migrations applied successfully!'' w2)))"

definition MigrateDown ::
  "('d, 'a) env \<Rightarrow> nat option \<Rightarrow> ('d, 'a) world \<Rightarrow> error option result \<times> ('d, 'a) world" where
  "MigrateDown e m w =
     (if length (registeredMigrations w) = 0
      then (Returns None, log_Println ''No migrations registered'' w)
      else case deref w m of
        None \<Rightarrow> (Panic, w)
      | Some t \<Rightarrow>
          let w1 = w\<lparr>engine := engine w @
                     [gormigrate_New (db t) (options t) (registeredMigrations w)]\<rparr>;
              w2 = w1\<lparr>engine := engine w1 @ [migrator_RollbackLast]\<rparr>
          in (case engine_RollbackLast e (db t) (options t) (registeredMigrations w) of
                Some err \<Rightarrow> (Returns (Some err), w2)
              | None \<Rightarrow>
                  (Returns None, log_Println ''Last migration rolled back successfully!'' w2)))"

section \<open>The singleton constructor\<close>

text \<open>
  \<open>once.Do(f)\<close> runs \<open>f\<close> only while the flag is unset and sets it when \<open>f\<close> returns.
  A failing \<open>gorm.Open\<close> ends the process inside \<open>f\<close>.
\<close>

definition NewMigrationTool ::
  "('d, 'a) env \<Rightarrow> string \<Rightarrow> ('d, 'a) world \<Rightarrow> nat option result \<times> ('d, 'a) world" where
  "NewMigrationTool e dsn w =
     (if once w then (Returns (the_instance w), w)
      else
        let w0 = w\<lparr>opened := opened w @ [dsn]\<rparr>
        in (case gorm_Open e dsn of
              Inl err \<Rightarrow> (Fatal, log_Println (''Failed to connect to the database: '' @ msg err) w0)
            | Inr d \<Rightarrow>
                let tool = \<lparr>db = d,
                            options = \<lparr>TableName = ''migrations'',
                                       IDColumnName = ''id'',
                                       IDColumnSize = 255,
                                       UseTransaction = True,
                                       ValidateUnknownMigrations = False\<rparr>\<rparr>;
                    w1 = w0\<lparr>heap := heap w0 @ [tool], the_instance := Some (length (heap w0))\<rparr>;
                    w2 = w1\<lparr>once := True\<rparr>
                in (Returns (the_instance w2), w2)))"

section \<open>Strings, formatting and the clock\<close>

text \<open>
  \<open>fmt.Sprintf\<close> for formats whose only verb is \<open>%s\<close>, with string arguments; every
  format string of the source is of that kind. A verb without an argument prints as Go
  prints it.
\<close>

fun Sprintf :: "string \<Rightarrow> string list \<Rightarrow> string" where
  "Sprintf [] args = []"
| "Sprintf [c] args = [c]"
| "Sprintf (c # d # fmt) args =
     (if c = CHR ''%'' \<and> d = CHR ''s''
      then (case args of
              a # rest \<Rightarrow> a @ Sprintf fmt rest
            | [] \<Rightarrow> ''%!s(MISSING)'' @ Sprintf fmt [])
      else c # Sprintf (d # fmt) args)"

text \<open>
  \<open>strings.Replace(s, old, new, -1)\<close> for a non-empty \<open>old\<close>: every non-overlapping
  occurrence, found from the left, is replaced.
\<close>

fun Replace :: "string \<Rightarrow> string \<Rightarrow> string \<Rightarrow> string" where
  "Replace [] old new = []"
| "Replace (c # s) old new =
     (if old \<noteq> [] \<and> take (length old) (c # s) = old
      then new @ Replace (drop (length old - 1) s) old new
      else c # Replace s old new)"

text \<open>Decimal digits, and the zero-padded field of package \<open>time\<close> (\<open>appendInt\<close>).\<close>

definition digit :: "nat \<Rightarrow> char" where
  "digit d = ''0123456789'' ! (d mod 10)"

fun itoa :: "nat \<Rightarrow> string" where
  "itoa n = (if n < 10 then [digit n] else itoa (n div 10) @ [digit (n mod 10)])"

definition appendInt :: "nat \<Rightarrow> nat \<Rightarrow> string" where
  "appendInt x width = replicate (width - length (itoa x)) (CHR ''0'') @ itoa x"

text \<open>\<open>time.Now().Format("20060102150405")\<close>: year, month, day, hour, minute, second.\<close>

definition Format :: "clock \<Rightarrow> string" where
  "Format t = appendInt (year t) 4 @ appendInt (month t) 2 @ appendInt (day t) 2 @
              appendInt (hour t) 2 @ appendInt (minute t) 2 @ appendInt (second t) 2"

text \<open>
  The clocks \<open>time.Now()\<close> can return: a calendar date and a time of day, the year
  written with four digits.
\<close>

definition valid_clock :: "clock \<Rightarrow> bool" where
  "valid_clock t \<longleftrightarrow>
     year t < 10000 \<and> 1 \<le> month t \<and> month t \<le> 12 \<and> 1 \<le> day t \<and> day t \<le> 31 \<and>
     hour t < 24 \<and> minute t < 60 \<and> second t < 60"

section \<open>The file scaffolder\<close>

text \<open>
  The two raw string literals, line by line: the number of leading tabs and the rest of
  the line. The lines are joined by newlines; the last line has none after it.
\<close>

definition source_line :: "nat \<times> string \<Rightarrow> string" where
  "source_line l = replicate (fst l) (CHR 0x09) @ snd l"

fun source_text :: "(nat \<times> string) list \<Rightarrow> string" where
  "source_text [] = []"
| "source_text [l] = source_line l"
| "source_text (l # ls) = source_line l @ CHR 0x0A # source_text ls"

definition migrationTemplate_lines :: "(nat \<times> string) list" where
  \<open>migrationTemplate_lines =
     [(0, ''package migrations''),
      (0, ''''),
      (0, ''import (''),
      (1, ''"github.com/Bparsons0904/deadigations"''),
      (1, ''"gorm.io/gorm"''),
      (0, '')''),
      (0, ''''),
      (0, ''func init() {''),
      (1, ''deadigations.RegisterMigration(deadigations.Migration{''),
      (2, ''ID:          "%s",''),
      (2, ''Description: "Add description of changes",''),
      (2, ''Migrate: func(tx *gorm.DB) error {''),
      (3, ''// Your migration logic goes here.''),
      (3, ''return nil // Replace with actual code''),
      (2, ''},''),
      (2, ''Rollback: func(tx *gorm.DB) error {''),
      (3, ''// Your rollback logic goes here.''),
      (3, ''return nil // Replace with actual code''),
      (2, ''},''),
      (1, ''})''),
      (0, ''}'')]\<close>

definition migrationTemplate :: string where
  "migrationTemplate = source_text migrationTemplate_lines"

definition transactionMigrationTemplate_lines :: "(nat \<times> string) list" where
  \<open>transactionMigrationTemplate_lines =
     [(0, ''package migrations''),
      (0, ''''),
      (0, ''import (''),
      (1, ''"github.com/Bparsons0904/deadigations"''),
      (1, ''"gorm.io/gorm"''),
      (0, '')''),
      (0, ''''),
      (0, ''func init() {''),
      (1, ''deadigations.RegisterMigration(deadigations.Migration{''),
      (2, ''ID:          "%s",''),
      (2, ''Description: "Add description of changes with transaction support",''),
      (2, ''Migrate: func(tx *gorm.DB) error {''),
      (3, ''// Begin transaction''),
      (3, ''err := tx.Transaction(func(tx *gorm.DB) error {''),
      (4, ''// Your first operation''),
      (4, ''if err := tx.Exec("/* first operation SQL */").Error; err != nil {''),
      (5, ''return err''),
      (4, ''}''),
      (0, ''''),
      (4, ''// Your second operation''),
      (4, ''if err := tx.Exec("/* second operation SQL */").Error; err != nil {''),
      (5, ''return err''),
      (4, ''}''),
      (0, ''''),
      (4, ''// Add more operations as needed''),
      (0, ''''),
      (4, ''return nil // Commit transaction''),
      (3, ''})''),
      (3, ''return err''),
      (2, ''},''),
      (2, ''Rollback: func(tx *gorm.DB) error {''),
      (3, ''// Begin transaction''),
      (3, ''err := tx.Transaction(func(tx *gorm.DB) error {''),
      (4, ''// Your first rollback operation''),
      (4, ''if err := tx.Exec("/* first rollback SQL */").Error; err != nil {''),
      (5, ''return err''),
      (4, ''}''),
      (0, ''''),
      (4, ''// Your second rollback operation''),
      (4, ''if err := tx.AutoMigrate(&Product{}); err != nil {''),
      (5, ''return err''),
      (4, ''}''),
      (0, ''''),
      (4, ''// Add more rollback operations as needed''),
      (0, ''''),
      (4, ''return nil // Commit rollback transaction''),
      (3, ''})''),
      (3, ''return err''),
      (2, ''},''),
      (1, ''})''),
      (0, ''}'')]\<close>

definition transactionMigrationTemplate :: string where
  "transactionMigrationTemplate = source_text transactionMigrationTemplate_lines"

text \<open>
  The file system. \<open>os.MkdirAll\<close> makes the directory and every parent it needs (each
  prefix of the path that ends before a separator), and succeeds on directories that
  exist. \<open>os.Create\<close> opens with \<open>O_RDWR|O_CREATE|O_TRUNC\<close>: a file that exists is
  truncated, which is not an error. \<open>WriteString\<close> writes into the file just truncated.
\<close>

definition ancestors :: "string \<Rightarrow> string list" where
  "ancestors path =
     filter (\<lambda>p. p \<noteq> [])
       (map (\<lambda>i. take i path) (filter (\<lambda>i. path ! i = CHR ''/'') [0..<length path])) @
     [path]"

definition MkdirAll ::
  "('d, 'a) env \<Rightarrow> string \<Rightarrow> ('d, 'a) world \<Rightarrow> error + ('d, 'a) world" where
  "MkdirAll e path w =
     (case MkdirAll_fault e path of
        Some err \<Rightarrow> Inl err
      | None \<Rightarrow> Inr (w\<lparr>dirs := dirs w \<union> set (ancestors path)\<rparr>))"

definition Create ::
  "('d, 'a) env \<Rightarrow> string \<Rightarrow> ('d, 'a) world \<Rightarrow> error + ('d, 'a) world" where
  "Create e path w =
     (case Create_fault e path of
        Some err \<Rightarrow> Inl err
      | None \<Rightarrow> Inr (w\<lparr>files := (files w)(path \<mapsto> [])\<rparr>))"

definition WriteString ::
  "('d, 'a) env \<Rightarrow> string \<Rightarrow> string \<Rightarrow> ('d, 'a) world \<Rightarrow> error + ('d, 'a) world" where
  "WriteString e path s w =
     (case WriteString_fault e path of
        Some err \<Rightarrow> Inl err
      | None \<Rightarrow> Inr (w\<lparr>files := (files w)(path \<mapsto> s)\<rparr>))"

text \<open>
  \<open>CreateMigrationFile\<close> and \<open>CreateTransactionMigrationFile\<close> are the same text
  but for the template and the format of the final log line; \<open>scaffold\<close> is that text,
  with the two as parameters, and \<open>filename_of\<close> its second line.
\<close>

definition filename_of :: "string \<Rightarrow> string \<Rightarrow> string" where
  "filename_of timestamp name = Sprintf ''%s_%s.go'' [timestamp, Replace name '' '' ''_'']"

definition scaffold ::
  "string \<Rightarrow> string \<Rightarrow> ('d, 'a) env \<Rightarrow> string \<Rightarrow> ('d, 'a) world \<Rightarrow>
     error option result \<times> ('d, 'a) world" where
  "scaffold template created e name w =
     (let timestamp = Format (Now e);
          filename = filename_of timestamp name;
          filePath = Sprintf ''./migrator/migrations/%s'' [filename]
      in case MkdirAll e ''./migrator/migrations'' w of
           Inl err \<Rightarrow> (Returns (Some err), w)
         | Inr w1 \<Rightarrow>
             (case Create e filePath w1 of
                Inl err \<Rightarrow> (Returns (Some err), w1)
              | Inr w2 \<Rightarrow>
                  let content = Sprintf template [timestamp]
                  in (case WriteString e filePath content w2 of
                        Inl err \<Rightarrow> (Returns (Some err), w2)
                      | Inr w3 \<Rightarrow>
                          (Returns None, log_Println (Sprintf created [filePath]) w3))))"

definition CreateMigrationFile ::
  "('d, 'a) env \<Rightarrow> nat option \<Rightarrow> string \<Rightarrow> ('d, 'a) world \<Rightarrow>
     error option result \<times> ('d, 'a) world" where
  "CreateMigrationFile e m name w =
     scaffold migrationTemplate ''Migration file created: %s'' e name w"

definition CreateTransactionMigrationFile ::
  "('d, 'a) env \<Rightarrow> nat option \<Rightarrow> string \<Rightarrow> ('d, 'a) world \<Rightarrow>
     error option result \<times> ('d, 'a) world" where
  "CreateTransactionMigrationFile e m name w =
     scaffold transactionMigrationTemplate ''Transaction migration file created: %s'' e name w"

section \<open>The dispatcher\<close>

text \<open>
  \<open>if err := f(); err != nil { log.Fatalf(label + ": %v", err) }\<close>: a returned error
  is logged and ends the process.
\<close>

fun fatal_on_error ::
  "string \<Rightarrow> error option result \<times> ('d, 'a) world \<Rightarrow> unit result \<times> ('d, 'a) world" where
  "fatal_on_error label (Returns None, w) = (Returns (), w)"
| "fatal_on_error label (Returns (Some err), w) = (Fatal, log_Println (label @ msg err) w)"
| "fatal_on_error label (Fatal, w) = (Fatal, w)"
| "fatal_on_error label (Panic, w) = (Panic, w)"

definition Run ::
  "('d, 'a) env \<Rightarrow> nat option \<Rightarrow> string list \<Rightarrow> ('d, 'a) world \<Rightarrow> unit result \<times> ('d, 'a) world" where
  "Run e m args w =
     (if length args > 1 then
        (if args ! 1 = ''-up'' then
           fatal_on_error ''Migration failed: '' (MigrateUp e m w)
         else if args ! 1 = ''-down'' then
           fatal_on_error ''Rollback failed: '' (MigrateDown e m w)
         else if args ! 1 = ''-create'' then
           (if length args < 3
            then (Fatal, log_Println ''Please provide a name for the migration'' w)
            else let migrationName = args ! 2
                 in fatal_on_error ''Failed to create migration file: ''
                      (CreateMigrationFile e m migrationName w))
         else if args ! 1 = ''-create-tx'' then
           (if length args < 3
            then (Fatal, log_Println ''Please provide a name for the transaction migration'' w)
            else let migrationName = args ! 2
                 in fatal_on_error ''Failed to create transaction migration file: ''
                      (CreateTransactionMigrationFile e m migrationName w))
         else (Fatal, log_Println ''Invalid command. Use -up, -down, -create, or -create-tx'' w))
      else (Returns (), log_Println ''No command provided. Use -up, -down, -create, or -create-tx'' w))"

section \<open>The superseded revision that sorts\<close>

text \<open>
  deadigations.go carries an earlier revision of the package after the current one
  (and part_000 an earlier one still). There \<open>MigrateUp\<close> and \<open>MigrateDown\<close> call
  \<open>sort.SliceStable\<close> on the registry, in place, before they construct the migrator.
  \<open>sort.SliceStable\<close> keeps elements that \<open>less\<close> does not order in their original
  order: it is a stable insertion.
\<close>

fun insert_stable :: "('x \<Rightarrow> 'x \<Rightarrow> bool) \<Rightarrow> 'x \<Rightarrow> 'x list \<Rightarrow> 'x list" where
  "insert_stable lt x [] = [x]"
| "insert_stable lt x (y # ys) =
     (if lt y x then y # insert_stable lt x ys else x # y # ys)"

definition SliceStable :: "('x \<Rightarrow> 'x \<Rightarrow> bool) \<Rightarrow> 'x list \<Rightarrow> 'x list" where
  "SliceStable lt xs = foldr (insert_stable lt) xs []"

text \<open>The two closures given to \<open>sort.SliceStable\<close>, on the elements they compare.\<close>

definition by_ID_ascending :: "'a gormigrate_Migration \<Rightarrow> 'a gormigrate_Migration \<Rightarrow> bool" where
  "by_ID_ascending i j \<longleftrightarrow> gm_ID i < gm_ID j"

definition by_ID_descending :: "'a gormigrate_Migration \<Rightarrow> 'a gormigrate_Migration \<Rightarrow> bool" where
  "by_ID_descending i j \<longleftrightarrow> gm_ID i > gm_ID j"

definition MigrateUp_prev ::
  "('d, 'a) env \<Rightarrow> nat option \<Rightarrow> ('d, 'a) world \<Rightarrow> error option result \<times> ('d, 'a) world" where
  "MigrateUp_prev e m w =
     (if length (registeredMigrations w) = 0
      then (Returns None, log_Println ''No migrations registered'' w)
      else
        let ws = w\<lparr>registeredMigrations :=
                     SliceStable by_ID_ascending (registeredMigrations w)\<rparr>
        in (case deref ws m of
              None \<Rightarrow> (Panic, ws)
            | Some t \<Rightarrow>
                let w1 = ws\<lparr>engine := engine ws @
                           [gormigrate_New (db t) (options t) (registeredMigrations ws)]\<rparr>;
                    w2 = w1\<lparr>engine := engine w1 @ [migrator_Migrate]\<rparr>
                in (case engine_Migrate e (db t) (options t) (registeredMigrations ws) of
                      Some err \<Rightarrow> (Returns (Some err), w2)
                    | None \<Rightarrow>
                        (Returns None, log_Println ''Migrations applied successfully!'' w2))))"

definition MigrateDown_prev ::
  "('d, 'a) env \<Rightarrow> nat option \<Rightarrow> ('d, 'a) world \<Rightarrow> error option result \<times> ('d, 'a) world" where
  "MigrateDown_prev e m w =
     (if length (registeredMigrations w) = 0
      then (Returns None, log_Println ''No migrations registered'' w)
      else
        let ws = w\<lparr>registeredMigrations :=
                     SliceStable by_ID_descending (registeredMigrations w)\<rparr>
        in (case deref ws m of
              None \<Rightarrow> (Panic, ws)
            | Some t \<Rightarrow>
                let w1 = ws\<lparr>engine := engine ws @
                           [gormigrate_New (db t) (options t) (registeredMigrations ws)]\<rparr>;
                    w2 = w1\<lparr>engine := engine w1 @ [migrator_RollbackLast]\<rparr>
                in (case engine_RollbackLast e (db t) (options t) (registeredMigrations ws) of
                      Some err \<Rightarrow> (Returns (Some err), w2)
                    | None \<Rightarrow>
                        (Returns None,
                         log_Println ''Last migration rolled back successfully!'' w2))))"

section \<open>Reading a generated file\<close>

text \<open>
  What a reader of a generated file sees: its lines, each with its number of leading
  tabs (\<open>source_lines\<close> undoes \<open>source_text\<close>); how often a piece of text occurs in a
  line or in a block of lines; the text between two marks on a line (\<open>cut\<close> splits at
  the first occurrence of a separator, like \<open>strings.Cut\<close>); and the lines between an
  opening line and the next closing line.
\<close>

fun split_lines :: "string \<Rightarrow> string list" where
  "split_lines [] = [[]]"
| "split_lines (c # s) =
     (if c = CHR 0x0A then [] # split_lines s
      else (case split_lines s of
              [] \<Rightarrow> [[c]]
            | l # ls \<Rightarrow> (c # l) # ls))"

text \<open>A line \<open>source_text\<close> can carry: no newline in it and no tab at its start.\<close>

definition plain_line :: "nat \<times> string \<Rightarrow> bool" where
  "plain_line l \<longleftrightarrow> CHR 0x0A \<notin> set (snd l) \<and> (snd l = [] \<or> hd (snd l) \<noteq> CHR 0x09)"

definition unindent :: "string \<Rightarrow> nat \<times> string" where
  "unindent l = (length (takeWhile (\<lambda>c. c = CHR 0x09) l), dropWhile (\<lambda>c. c = CHR 0x09) l)"

definition source_lines :: "string \<Rightarrow> (nat \<times> string) list" where
  "source_lines s = map unindent (split_lines s)"

fun occurrences :: "string \<Rightarrow> string \<Rightarrow> nat" where
  "occurrences p [] = 0"
| "occurrences p (c # s) = (if prefix p (c # s) then 1 else 0) + occurrences p s"

definition count_in :: "string \<Rightarrow> (nat \<times> string) list \<Rightarrow> nat" where
  "count_in p ls = sum_list (map (\<lambda>l. occurrences p (snd l)) ls)"

fun cut :: "string \<Rightarrow> string \<Rightarrow> (string \<times> string) option" where
  "cut sep [] = (if sep = [] then Some ([], []) else None)"
| "cut sep (c # s) =
     (if prefix sep (c # s) then Some ([], drop (length sep) (c # s))
      else map_option (\<lambda>(a, b). (c # a, b)) (cut sep s))"

definition between :: "string \<Rightarrow> string \<Rightarrow> string \<Rightarrow> string option" where
  "between opening closing s =
     (case cut opening s of
        None \<Rightarrow> None
      | Some (a, r) \<Rightarrow> map_option fst (cut closing r))"

definition lines_between ::
  "nat \<times> string \<Rightarrow> nat \<times> string \<Rightarrow> (nat \<times> string) list \<Rightarrow> (nat \<times> string) list option" where
  "lines_between opening closing ls =
     (case dropWhile (\<lambda>l. l \<noteq> opening) ls of
        [] \<Rightarrow> None
      | l # rest \<Rightarrow>
          if closing \<in> set rest then Some (takeWhile (\<lambda>l. l \<noteq> closing) rest) else None)"

text \<open>
  The value of the \<open>ID\<close> field, where the file has exactly one line that starts with
  \<open>ID:\<close>, and the bodies of the two function literals.
\<close>

definition ID_field :: "string \<Rightarrow> string option" where
  \<open>ID_field content =
     (case filter (\<lambda>l. prefix ''ID:'' (snd l)) (source_lines content) of
        [l] \<Rightarrow> between ''"'' ''"'' (snd l)
      | _ \<Rightarrow> None)\<close>

definition Migrate_body :: "string \<Rightarrow> (nat \<times> string) list option" where
  "Migrate_body content =
     lines_between (2, ''Migrate: func(tx *gorm.DB) error {'') (2, ''},'') (source_lines content)"

definition Rollback_body :: "string \<Rightarrow> (nat \<times> string) list option" where
  "Rollback_body content =
     lines_between (2, ''Rollback: func(tx *gorm.DB) error {'') (2, ''},'') (source_lines content)"

text \<open>
  A body wrapped in a nested transaction with two placeholder statements: its first
  statement opens \<open>tx.Transaction(func(tx *gorm.DB) error {\<close>, its last lines close it
  and return its error, and the lines in between hold no further transaction and two
  statements of the form \<open>if err := tx. ... ; err != nil {\<close>.
\<close>

definition nested_transaction :: "(nat \<times> string) list \<Rightarrow> bool" where
  "nested_transaction body \<longleftrightarrow>
     take 2 body = [(3, ''// Begin transaction''),
                    (3, ''err := tx.Transaction(func(tx *gorm.DB) error {'')] \<and>
     drop (length body - 2) body = [(3, ''})''), (3, ''return err'')] \<and>
     count_in ''tx.Transaction('' (drop 2 (take (length body - 2) body)) = 0 \<and>
     count_in ''if err := tx.'' (drop 2 (take (length body - 2) body)) = 2"

section \<open>Observing the engine\<close>

text \<open>The IDs of the migration list of every migrator constructed, in order.\<close>

fun handed_IDs :: "('d, 'a) engine_call list \<Rightarrow> string list list" where
  "handed_IDs [] = []"
| "handed_IDs (gormigrate_New d opts ms # cs) = map gm_ID ms # handed_IDs cs"
| "handed_IDs (migrator_Migrate # cs) = handed_IDs cs"
| "handed_IDs (migrator_RollbackLast # cs) = handed_IDs cs"

section \<open>Concrete inputs\<close>

text \<open>The state of a process at start: the zero values of the package-level variables.\<close>

definition initial :: "(nat, unit) world" where
  "initial = \<lparr>once = False, the_instance = None, registeredMigrations = [], heap = [],
              logged = [], opened = [], engine = [], dirs = {}, files = Map.empty\<rparr>"

text \<open>
  An environment in which nothing fails: every connection string opens handle 7,
  the engine reports success, and it is 2024-08-03 12:00:00.
\<close>

definition calm :: "(nat, unit) env" where
  "calm = \<lparr>gorm_Open = (\<lambda>dsn. Inr 7),
           engine_Migrate = (\<lambda>d opts ms. None),
           engine_RollbackLast = (\<lambda>d opts ms. None),
           Now = \<lparr>year = 2024, month = 8, day = 3, hour = 12, minute = 0, second = 0\<rparr>,
           MkdirAll_fault = (\<lambda>p. None),
           Create_fault = (\<lambda>p. None),
           WriteString_fault = (\<lambda>p. None)\<rparr>"

text \<open>Environments in which one file-system operation is refused.\<close>

definition no_mkdir :: "(nat, unit) env" where
  "no_mkdir = calm\<lparr>MkdirAll_fault := (\<lambda>p. Some (Error ''permission denied''))\<rparr>"

definition read_only :: "(nat, unit) env" where
  "read_only = calm\<lparr>Create_fault := (\<lambda>p. Some (Error ''permission denied''))\<rparr>"

definition disk_full :: "(nat, unit) env" where
  "disk_full = calm\<lparr>WriteString_fault := (\<lambda>p. Some (Error ''no space left on device''))\<rparr>"

definition mig :: "string \<Rightarrow> string \<Rightarrow> unit Migration" where
  "mig i d = \<lparr>ID = i, Description = d, Migrate = (), Rollback = ()\<rparr>"

text \<open>
  The state after registering the IDs 3, 1, 2 in that order and constructing the tool,
  which is then the object at address 0.
\<close>

definition registered312 :: "(nat, unit) world" where
  "registered312 =
     snd (NewMigrationTool calm ''host=db''
       (RegisterMigration (mig ''2'' ''third'')
         (RegisterMigration (mig ''1'' ''second'')
           (RegisterMigration (mig ''3'' ''first'') initial))))"

section \<open>Properties of the registry\<close>

lemma log_Println_fields [simp]:
  "logged (log_Println s w) = logged w @ [s]"
  "once (log_Println s w) = once w"
  "the_instance (log_Println s w) = the_instance w"
  "registeredMigrations (log_Println s w) = registeredMigrations w"
  "heap (log_Println s w) = heap w"
  "opened (log_Println s w) = opened w"
  "engine (log_Println s w) = engine w"
  "dirs (log_Println s w) = dirs w"
  "files (log_Println s w) = files w"
  by (simp_all add: log_Println_def)

text \<open>
  C8. \<open>RegisterMigration\<close> appends exactly one entry, built from the descriptor, at the
  end of the registry: the registry grows by one, the entries registered before stay
  where they were, and nothing else in the state changes. There is no condition on the
  descriptor, so an empty ID or an ID already registered is appended like any other.
\<close>

theorem RegisterMigration_appends:
  "registeredMigrations (RegisterMigration d w) =
     registeredMigrations w @
       [\<lparr>gm_ID = ID d, gm_Migrate = Migrate d, gm_Rollback = Rollback d\<rparr>] \<and>
   length (registeredMigrations (RegisterMigration d w)) = Suc (length (registeredMigrations w)) \<and>
   take (length (registeredMigrations w)) (registeredMigrations (RegisterMigration d w)) =
     registeredMigrations w \<and>
   (RegisterMigration d w)\<lparr>registeredMigrations := registeredMigrations w\<rparr> = w"
  by (simp add: RegisterMigration_def)

text \<open>
  C9. The description is discarded: two descriptors that agree on ID, \<open>Migrate\<close> and
  \<open>Rollback\<close> leave the same state behind, so whatever \<open>MigrateUp\<close> and \<open>MigrateDown\<close>
  do afterwards, the calls into the engine included, is the same in both runs.
\<close>

theorem Description_is_discarded:
  assumes "ID d1 = ID d2" and "Migrate d1 = Migrate d2" and "Rollback d1 = Rollback d2"
  shows "RegisterMigration d1 w = RegisterMigration d2 w \<and>
         MigrateUp e m (RegisterMigration d1 w) = MigrateUp e m (RegisterMigration d2 w) \<and>
         MigrateDown e m (RegisterMigration d1 w) = MigrateDown e m (RegisterMigration d2 w) \<and>
         engine (snd (MigrateUp e m (RegisterMigration d1 w))) =
           engine (snd (MigrateUp e m (RegisterMigration d2 w))) \<and>
         engine (snd (MigrateDown e m (RegisterMigration d1 w))) =
           engine (snd (MigrateDown e m (RegisterMigration d2 w)))"
proof -
  have "RegisterMigration d1 w = RegisterMigration d2 w"
    using assms by (simp add: RegisterMigration_def)
  then show ?thesis by simp
qed

theorem Description_is_discarded_witness:
  "Description (mig ''7'' ''add users'') \<noteq> Description (mig ''7'' ''drop users'') \<and>
   RegisterMigration (mig ''7'' ''add users'') registered312 =
     RegisterMigration (mig ''7'' ''drop users'') registered312 \<and>
   engine (snd (MigrateUp calm (Some 0) (RegisterMigration (mig ''7'' ''add users'') registered312))) =
     engine (snd (MigrateUp calm (Some 0) (RegisterMigration (mig ''7'' ''drop users'') registered312)))"
  using Description_is_discarded
          [of "mig ''7'' ''add users''" "mig ''7'' ''drop users''" registered312 calm "Some 0"]
  by (simp add: mig_def)

section \<open>Properties of apply and rollback\<close>

text \<open>
  C2. With no migration registered, \<open>MigrateUp\<close> and \<open>MigrateDown\<close> return \<open>nil\<close>;
  the only effect is the log line, so the engine is neither constructed nor called
  (its trace is unchanged). This holds for every receiver, \<open>nil\<close> included.
\<close>

theorem empty_registry_returns_nil:
  "registeredMigrations w = [] \<longrightarrow>
     MigrateUp e m w = (Returns None, log_Println ''No migrations registered'' w) \<and>
     MigrateDown e m w = (Returns None, log_Println ''No migrations registered'' w) \<and>
     engine (snd (MigrateUp e m w)) = engine w \<and>
     engine (snd (MigrateDown e m w)) = engine w"
  by (simp add: MigrateUp_def MigrateDown_def)

theorem empty_registry_returns_nil_witness:
  "registeredMigrations initial = [] \<and>
   fst (MigrateUp calm None initial) = Returns None \<and>
   fst (MigrateDown calm None initial) = Returns None \<and>
   engine (snd (MigrateUp calm None initial)) = [] \<and>
   engine (snd (MigrateDown calm None initial)) = []"
proof -
  have none: "registeredMigrations initial = []" and quiet: "engine initial = []"
    by (simp_all add: initial_def)
  show ?thesis
    using empty_registry_returns_nil [of initial calm None] none quiet by simp
qed


text \<open>The stable insertion sort: permutation, order, stability.\<close>

lemma set_insert_stable: "set (insert_stable lt x xs) = insert x (set xs)"
  by (induction xs) auto

lemma mset_insert_stable: "mset (insert_stable lt x xs) = add_mset x (mset xs)"
  by (induction xs) auto

lemma mset_SliceStable: "mset (SliceStable lt xs) = mset xs"
  by (induction xs) (simp_all add: SliceStable_def mset_insert_stable)

lemma insert_stable_ascending:
  "sorted (map gm_ID xs) \<Longrightarrow> sorted (map gm_ID (insert_stable by_ID_ascending x xs))"
  by (induction xs) (auto simp add: set_insert_stable by_ID_ascending_def)

lemma insert_stable_descending:
  "sorted_wrt (\<ge>) (map gm_ID xs) \<Longrightarrow>
   sorted_wrt (\<ge>) (map gm_ID (insert_stable by_ID_descending x xs))"
  by (induction xs) (auto simp add: set_insert_stable by_ID_descending_def)

lemma SliceStable_ascending: "sorted (map gm_ID (SliceStable by_ID_ascending xs))"
  by (induction xs) (simp_all add: SliceStable_def insert_stable_ascending)

lemma SliceStable_descending: "sorted_wrt (\<ge>) (map gm_ID (SliceStable by_ID_descending xs))"
  by (induction xs) (simp_all add: SliceStable_def insert_stable_descending)

lemma filter_insert_stable:
  assumes "\<And>y. lt y x \<Longrightarrow> f y \<noteq> f x"
  shows "filter (\<lambda>y. f y = k) (insert_stable lt x xs) = filter (\<lambda>y. f y = k) (x # xs)"
proof (induction xs)
  case Nil
  show ?case by simp
next
  case (Cons y ys)
  show ?case
  proof (cases "lt y x")
    case True
    then have "f y \<noteq> f x" by (rule assms)
    with True Cons.IH show ?thesis by auto
  next
    case False
    then show ?thesis by simp
  qed
qed

lemma SliceStable_stable:
  assumes "\<And>x y. lt y x \<Longrightarrow> f y \<noteq> f x"
  shows "filter (\<lambda>y. f y = k) (SliceStable lt xs) = filter (\<lambda>y. f y = k) xs"
proof (induction xs)
  case Nil
  show ?case by (simp add: SliceStable_def)
next
  case (Cons x xs)
  have "filter (\<lambda>y. f y = k) (SliceStable lt (x # xs)) =
        filter (\<lambda>y. f y = k) (insert_stable lt x (SliceStable lt xs))"
    by (simp add: SliceStable_def)
  also have "\<dots> = filter (\<lambda>y. f y = k) (x # SliceStable lt xs)"
    using assms by (rule filter_insert_stable)
  also have "\<dots> = filter (\<lambda>y. f y = k) (x # xs)"
    using Cons.IH by simp
  finally show ?case .
qed

text \<open>
  C1, as the code has it. deadigations.go holds two revisions of the package. The
  current one (the first, the only one with \<open>-create-tx\<close> and
  \<open>CreateTransactionMigrationFile\<close>) does not sort: \<open>MigrateUp\<close> and \<open>MigrateDown\<close>
  construct the migrator on the registry as it stands, in registration order, and leave
  the registry as it was. The stable sort by ID, ascending for apply and descending for
  rollback, ties in registration order, is what the superseded revision (and part_000)
  hands to the engine.
\<close>

theorem registry_handed_over_in_registration_order:
  assumes "registeredMigrations w \<noteq> []" and "deref w m = Some t"
  shows "engine (snd (MigrateUp e m w)) =
           engine w @ [gormigrate_New (db t) (options t) (registeredMigrations w),
                       migrator_Migrate] \<and>
         engine (snd (MigrateDown e m w)) =
           engine w @ [gormigrate_New (db t) (options t) (registeredMigrations w),
                       migrator_RollbackLast] \<and>
         registeredMigrations (snd (MigrateUp e m w)) = registeredMigrations w \<and>
         registeredMigrations (snd (MigrateDown e m w)) = registeredMigrations w \<and>
         engine (snd (MigrateUp_prev e m w)) =
           engine w @ [gormigrate_New (db t) (options t)
                         (SliceStable by_ID_ascending (registeredMigrations w)),
                       migrator_Migrate] \<and>
         engine (snd (MigrateDown_prev e m w)) =
           engine w @ [gormigrate_New (db t) (options t)
                         (SliceStable by_ID_descending (registeredMigrations w)),
                       migrator_RollbackLast] \<and>
         sorted (map gm_ID (SliceStable by_ID_ascending (registeredMigrations w))) \<and>
         sorted_wrt (\<ge>) (map gm_ID (SliceStable by_ID_descending (registeredMigrations w))) \<and>
         mset (SliceStable by_ID_ascending (registeredMigrations w)) =
           mset (registeredMigrations w) \<and>
         mset (SliceStable by_ID_descending (registeredMigrations w)) =
           mset (registeredMigrations w) \<and>
         (\<forall>k. filter (\<lambda>g. gm_ID g = k) (SliceStable by_ID_ascending (registeredMigrations w)) =
              filter (\<lambda>g. gm_ID g = k) (registeredMigrations w)) \<and>
         (\<forall>k. filter (\<lambda>g. gm_ID g = k) (SliceStable by_ID_descending (registeredMigrations w)) =
              filter (\<lambda>g. gm_ID g = k) (registeredMigrations w))"
proof -
  have current: "engine (snd (MigrateUp e m w)) =
           engine w @ [gormigrate_New (db t) (options t) (registeredMigrations w),
                       migrator_Migrate]"
       "engine (snd (MigrateDown e m w)) =
           engine w @ [gormigrate_New (db t) (options t) (registeredMigrations w),
                       migrator_RollbackLast]"
       "registeredMigrations (snd (MigrateUp e m w)) = registeredMigrations w"
       "registeredMigrations (snd (MigrateDown e m w)) = registeredMigrations w"
    using assms
    by (simp_all add: MigrateUp_def MigrateDown_def Let_def split: option.splits)
  have "deref (w\<lparr>registeredMigrations := rs\<rparr>) m = deref w m" for rs
    by (cases m) (simp_all add: deref_def)
  with assms(2) have same: "deref (w\<lparr>registeredMigrations := rs\<rparr>) m = Some t" for rs
    by simp
  have prev: "engine (snd (MigrateUp_prev e m w)) =
           engine w @ [gormigrate_New (db t) (options t)
                         (SliceStable by_ID_ascending (registeredMigrations w)),
                       migrator_Migrate]"
       "engine (snd (MigrateDown_prev e m w)) =
           engine w @ [gormigrate_New (db t) (options t)
                         (SliceStable by_ID_descending (registeredMigrations w)),
                       migrator_RollbackLast]"
    using assms(1) same
    by (simp_all add: MigrateUp_prev_def MigrateDown_prev_def Let_def split: option.splits)
  have stable:
      "filter (\<lambda>g. gm_ID g = k) (SliceStable by_ID_ascending (registeredMigrations w)) =
         filter (\<lambda>g. gm_ID g = k) (registeredMigrations w)"
      "filter (\<lambda>g. gm_ID g = k) (SliceStable by_ID_descending (registeredMigrations w)) =
         filter (\<lambda>g. gm_ID g = k) (registeredMigrations w)" for k
    by (rule SliceStable_stable, simp add: by_ID_ascending_def by_ID_descending_def)+
  show ?thesis
    using current prev stable
    by (simp add: SliceStable_ascending SliceStable_descending mset_SliceStable)
qed

lemma registered312_fields:
  "registeredMigrations registered312 =
     [\<lparr>gm_ID = ''3'', gm_Migrate = (), gm_Rollback = ()\<rparr>,
      \<lparr>gm_ID = ''1'', gm_Migrate = (), gm_Rollback = ()\<rparr>,
      \<lparr>gm_ID = ''2'', gm_Migrate = (), gm_Rollback = ()\<rparr>]"
  "deref registered312 (Some 0) = Some \<lparr>db = 7,
      options = \<lparr>TableName = ''migrations'', IDColumnName = ''id'', IDColumnSize = 255,
                 UseTransaction = True, ValidateUnknownMigrations = False\<rparr>\<rparr>"
  "engine registered312 = []"
  by (simp_all add: registered312_def NewMigrationTool_def RegisterMigration_def
        initial_def calm_def mig_def deref_def Let_def)

theorem registry_handed_over_in_registration_order_witness:
  "registeredMigrations registered312 \<noteq> [] \<and>
   handed_IDs (engine (snd (MigrateUp calm (Some 0) registered312))) = [[''3'', ''1'', ''2'']] \<and>
   handed_IDs (engine (snd (MigrateDown calm (Some 0) registered312))) = [[''3'', ''1'', ''2'']] \<and>
   handed_IDs (engine (snd (MigrateUp_prev calm (Some 0) registered312))) =
     [map gm_ID (SliceStable by_ID_ascending (registeredMigrations registered312))]"
proof -
  have some: "registeredMigrations registered312 \<noteq> []"
    by (simp add: registered312_fields(1))
  show ?thesis
    using registry_handed_over_in_registration_order [OF some registered312_fields(2), of calm]
          some registered312_fields
    by simp
qed

text \<open>
  C1 as the specification states it fails on the current revision: registered in the
  order 3, 1, 2, the migrations reach the engine in the order 3, 1, 2, for apply and for
  rollback alike, not as 1, 2, 3 and 3, 2, 1.
\<close>

theorem MigrateUp_MigrateDown_do_not_sort:
  "map gm_ID (registeredMigrations registered312) = [''3'', ''1'', ''2''] \<and>
   handed_IDs (engine (snd (MigrateUp calm (Some 0) registered312))) = [[''3'', ''1'', ''2'']] \<and>
   handed_IDs (engine (snd (MigrateUp calm (Some 0) registered312))) \<noteq> [[''1'', ''2'', ''3'']] \<and>
   handed_IDs (engine (snd (MigrateDown calm (Some 0) registered312))) = [[''3'', ''1'', ''2'']] \<and>
   handed_IDs (engine (snd (MigrateDown calm (Some 0) registered312))) \<noteq> [[''3'', ''2'', ''1'']]"
  using registered312_fields
  by (simp add: MigrateUp_def MigrateDown_def Let_def calm_def)

text \<open>The superseded revision on the same registry: 1, 2, 3 and 3, 2, 1.\<close>

lemma prev_revision_sorts_312:
  "handed_IDs (engine (snd (MigrateUp_prev calm (Some 0) registered312))) = [[''1'', ''2'', ''3'']]"
  "handed_IDs (engine (snd (MigrateDown_prev calm (Some 0) registered312))) = [[''3'', ''2'', ''1'']]"
  by (simp_all add: MigrateUp_prev_def MigrateDown_prev_def Let_def calm_def deref_def
        registered312_def NewMigrationTool_def RegisterMigration_def initial_def mig_def
        SliceStable_def by_ID_ascending_def by_ID_descending_def)

section \<open>Properties of the constructor\<close>

text \<open>
  C3. In a process where the constructor has not run, a first call that returns opens
  the connection with its own connection string, allocates the tool and returns its
  address. A second call, whatever its connection string, returns the same address and
  changes nothing at all: the state after it is the state before it, so no connection
  is opened and the tool keeps the handle and the options of the first call.
\<close>

theorem NewMigrationTool_singleton:
  assumes "\<not> once w" and "NewMigrationTool e dsn1 w = (Returns p, w1)"
  shows "NewMigrationTool e dsn2 w1 = (Returns p, w1) \<and>
         p = Some (length (heap w)) \<and>
         opened w1 = opened w @ [dsn1] \<and>
         opened (snd (NewMigrationTool e dsn2 w1)) = opened w @ [dsn1] \<and>
         map_option db (deref w1 p) = (case gorm_Open e dsn1 of Inr d \<Rightarrow> Some d | Inl err \<Rightarrow> None) \<and>
         deref (snd (NewMigrationTool e dsn2 w1)) p = deref w1 p"
proof (cases "gorm_Open e dsn1")
  case (Inl err)
  with assms show ?thesis by (simp add: NewMigrationTool_def)
next
  case (Inr d)
  with assms have p: "p = Some (length (heap w))"
    and w1: "w1 = w\<lparr>opened := opened w @ [dsn1],
                    heap := heap w @ [\<lparr>db = d,
                      options = \<lparr>TableName = ''migrations'', IDColumnName = ''id'',
                                 IDColumnSize = 255, UseTransaction = True,
                                 ValidateUnknownMigrations = False\<rparr>\<rparr>],
                    the_instance := Some (length (heap w)), once := True\<rparr>"
    by (auto simp add: NewMigrationTool_def Let_def)
  have again: "NewMigrationTool e dsn2 w1 = (Returns p, w1)"
    by (simp add: NewMigrationTool_def w1 p)
  have "map_option db (deref w1 p) = Some d"
    by (simp add: deref_def w1 p)
  with again p w1 Inr show ?thesis by simp
qed

theorem NewMigrationTool_singleton_witness:
  "\<not> once initial \<and>
   fst (NewMigrationTool calm ''host=a'' initial) = Returns (Some 0) \<and>
   fst (NewMigrationTool calm ''host=b'' (snd (NewMigrationTool calm ''host=a'' initial))) =
     Returns (Some 0) \<and>
   opened (snd (NewMigrationTool calm ''host=b'' (snd (NewMigrationTool calm ''host=a'' initial)))) =
     [''host=a'']"
proof -
  define w1 where "w1 = snd (NewMigrationTool calm ''host=a'' initial)"
  have first: "NewMigrationTool calm ''host=a'' initial = (Returns (Some 0), w1)"
    unfolding w1_def by (simp add: NewMigrationTool_def initial_def calm_def Let_def)
  have fresh: "\<not> once initial" and none: "opened initial = []" "heap initial = []"
    by (simp_all add: initial_def)
  show ?thesis
    using NewMigrationTool_singleton [OF fresh first, of "''host=b''"] fresh first none
    by simp
qed

section \<open>Properties of the dispatcher\<close>

text \<open>
  C7. \<open>-create\<close> or \<open>-create-tx\<close> with no name after it (two arguments in all) ends the
  process with the usage message. The state at exit is the state at entry with that one
  log line added: no directory was made and no file was written.
\<close>

theorem create_without_name_is_fatal:
  assumes "1 < length args" and "length args < 3"
    and "args ! 1 = ''-create'' \<or> args ! 1 = ''-create-tx''"
  shows "Run e m args w =
           (Fatal, log_Println (if args ! 1 = ''-create''
                                then ''Please provide a name for the migration''
                                else ''Please provide a name for the transaction migration'') w) \<and>
         dirs (snd (Run e m args w)) = dirs w \<and>
         files (snd (Run e m args w)) = files w"
  using assms by (auto simp add: Run_def)

theorem create_without_name_is_fatal_witness:
  "fst (Run calm None [''migrator'', ''-create''] initial) = Fatal \<and>
   files (snd (Run calm None [''migrator'', ''-create''] initial)) = Map.empty \<and>
   dirs (snd (Run calm None [''migrator'', ''-create''] initial)) = {}"
proof -
  have start: "files initial = Map.empty" "dirs initial = {}"
    by (simp_all add: initial_def)
  show ?thesis
    using create_without_name_is_fatal [of "[''migrator'', ''-create'']" calm None initial] start
    by simp
qed

text \<open>
  C10. Without a subcommand (fewer than two arguments) \<open>Run\<close> logs the usage hint and
  returns; the state is unchanged but for that log line. With a subcommand that is none
  of the four, \<open>Run\<close> logs and ends the process.
\<close>

theorem Run_no_or_unknown_subcommand:
  "(length args < 2 \<longrightarrow>
      Run e m args w =
        (Returns (),
         log_Println ''No command provided. Use -up, -down, -create, or -create-tx'' w)) \<and>
   (1 < length args \<and> args ! 1 \<noteq> ''-up'' \<and> args ! 1 \<noteq> ''-down'' \<and>
    args ! 1 \<noteq> ''-create'' \<and> args ! 1 \<noteq> ''-create-tx'' \<longrightarrow>
      Run e m args w =
        (Fatal, log_Println ''Invalid command. Use -up, -down, -create, or -create-tx'' w))"
  by (simp add: Run_def)

theorem Run_no_or_unknown_subcommand_witness:
  "fst (Run calm None [''migrator''] initial) = Returns () \<and>
   fst (Run calm None [] initial) = Returns () \<and>
   fst (Run calm None [''migrator'', ''-status''] initial) = Fatal \<and>
   registeredMigrations (snd (Run calm None [''migrator''] initial)) = []"
proof -
  have start: "registeredMigrations initial = []"
    by (simp add: initial_def)
  show ?thesis
    using Run_no_or_unknown_subcommand [of "[''migrator'']" calm None initial]
          Run_no_or_unknown_subcommand [of "[]" calm None initial]
          Run_no_or_unknown_subcommand [of "[''migrator'', ''-status'']" calm None initial]
          start
    by simp
qed

section \<open>Properties of the scaffolder\<close>

text \<open>The timestamp: zero-padded decimal fields.\<close>

declare itoa.simps [simp del]

lemma replicate_zeros:
  "replicate 2 c = [c, c]" "replicate 3 c = [c, c, c]"
  by (simp_all add: numeral_2_eq_2 numeral_3_eq_3)

lemma digit_mod: "digit (n mod 10) = digit n"
  by (simp add: digit_def)

lemma digit_0: "digit 0 = CHR ''0''"
  by (simp add: digit_def)

lemma digit_is_decimal: "digit d \<in> set ''0123456789''"
proof -
  have "d mod 10 < length ''0123456789''" by simp
  then have "''0123456789'' ! (d mod 10) \<in> set ''0123456789''" by (rule nth_mem)
  then show ?thesis by (simp only: digit_def)
qed

lemma itoa_one: "n < 10 \<Longrightarrow> itoa n = [digit n]"
  by (simp add: itoa.simps [of n])

lemma itoa_more: "10 \<le> n \<Longrightarrow> itoa n = itoa (n div 10) @ [digit n]"
  by (simp add: itoa.simps [of n] digit_mod)

lemma appendInt_2:
  assumes "x < 100" shows "appendInt x 2 = [digit (x div 10), digit x]"
proof (cases "x < 10")
  case True
  then show ?thesis by (simp add: appendInt_def itoa_one digit_0 replicate_zeros)
next
  case False
  with assms have "x div 10 < 10" by simp
  with False show ?thesis by (simp add: appendInt_def itoa_more itoa_one)
qed

lemma appendInt_4:
  assumes "x < 10000"
  shows "appendInt x 4 = [digit (x div 1000), digit (x div 100), digit (x div 10), digit x]"
proof -
  consider "x < 10" | "10 \<le> x" "x < 100" | "100 \<le> x" "x < 1000" | "1000 \<le> x"
    by linarith
  then show ?thesis
  proof cases
    case 1
    then show ?thesis by (simp add: appendInt_def itoa_one digit_0 replicate_zeros)
  next
    case 2
    then have "x div 10 < 10" by simp
    with 2 show ?thesis by (simp add: appendInt_def itoa_more itoa_one digit_0 replicate_zeros)
  next
    case 3
    then have "10 \<le> x div 10" "x div 10 div 10 < 10" "10 \<le> x" by simp_all
    with 3 show ?thesis
      by (simp add: appendInt_def itoa_more itoa_one digit_0 div_mult2_eq [symmetric] replicate_zeros)
  next
    case 4
    with assms have "10 \<le> x div 10" "10 \<le> x div 10 div 10" "x div 10 div 10 div 10 < 10" "10 \<le> x"
      by simp_all
    then show ?thesis
      by (simp add: appendInt_def itoa_more itoa_one div_mult2_eq [symmetric] replicate_zeros)
  qed
qed

lemma Replace_space:
  "Replace name '' '' ''_'' = map (\<lambda>c. if c = CHR '' '' then CHR ''_'' else c) name"
  by (induction name) simp_all

lemma Sprintf_filename: "Sprintf ''%s_%s.go'' [a, b] = a @ ''_'' @ b @ ''.go''"
  by simp

lemma Sprintf_path: "Sprintf ''./migrator/migrations/%s'' [a] = ''./migrator/migrations/'' @ a"
  by simp

lemma Format_digits:
  assumes "valid_clock t"
  shows "Format t = map digit [year t div 1000, year t div 100, year t div 10, year t,
                              month t div 10, month t, day t div 10, day t,
                              hour t div 10, hour t, minute t div 10, minute t,
                              second t div 10, second t]"
  using assms by (simp add: Format_def valid_clock_def appendInt_2 appendInt_4)


lemma scaffold_unfold:
  "scaffold template created e name w =
     (let path = ''./migrator/migrations/'' @ filename_of (Format (Now e)) name;
          w1 = w\<lparr>dirs := dirs w \<union> set (ancestors ''./migrator/migrations'')\<rparr>
      in case MkdirAll_fault e ''./migrator/migrations'' of
           Some err \<Rightarrow> (Returns (Some err), w)
         | None \<Rightarrow>
             (case Create_fault e path of
                Some err \<Rightarrow> (Returns (Some err), w1)
              | None \<Rightarrow>
                  (case WriteString_fault e path of
                     Some err \<Rightarrow> (Returns (Some err), w1\<lparr>files := (files w)(path \<mapsto> [])\<rparr>)
                   | None \<Rightarrow>
                       (Returns None,
                        log_Println (Sprintf created [path])
                          (w1\<lparr>files := (files w)(path \<mapsto> Sprintf template [Format (Now e)])\<rparr>)))))"
  by (simp add: scaffold_def MkdirAll_def Create_def WriteString_def Let_def Sprintf_path
        split: option.splits)

lemma ancestors_of_the_directory:
  "ancestors ''./migrator/migrations'' = [''.'', ''./migrator'', ''./migrator/migrations'']"
  by code_simp

lemma Format_calm: "Format (Now calm) = ''20240803120000''"
  by (simp add: calm_def Format_def appendInt_def itoa.simps digit_def)

lemma valid_clock_calm: "valid_clock (Now calm)"
  by (simp add: calm_def valid_clock_def)

text \<open>
  C4. On a clock showing a date with a four-digit year, both scaffolding methods name
  the file \<open>timestamp_name.go\<close>: the timestamp is fourteen decimal digits, the digits
  of year, month, day, hour, minute and second in that order, and the name is the
  argument with every space replaced by an underscore and every other character kept.
  Where the file system refuses nothing, \<open>CreateMigrationFile\<close> and
  \<open>CreateTransactionMigrationFile\<close> both return \<open>nil\<close> and have created exactly that
  file in \<open>./migrator/migrations\<close>; the file is there as soon as \<open>os.Create\<close> has
  succeeded, and neither method ever creates a file of another name.
\<close>

theorem scaffold_file_name:
  assumes "valid_clock (Now e)"
  shows "filename_of (Format (Now e)) name =
           Format (Now e) @ ''_'' @
             map (\<lambda>c. if c = CHR '' '' then CHR ''_'' else c) name @ ''.go'' \<and>
         length (Format (Now e)) = 14 \<and>
         set (Format (Now e)) \<subseteq> set ''0123456789'' \<and>
         Format (Now e) =
           map digit [year (Now e) div 1000, year (Now e) div 100, year (Now e) div 10, year (Now e),
                      month (Now e) div 10, month (Now e), day (Now e) div 10, day (Now e),
                      hour (Now e) div 10, hour (Now e), minute (Now e) div 10, minute (Now e),
                      second (Now e) div 10, second (Now e)] \<and>
         (fst (CreateMigrationFile e m name w) = Returns None \<longrightarrow>
            dom (files (snd (CreateMigrationFile e m name w))) =
              insert (''./migrator/migrations/'' @ filename_of (Format (Now e)) name)
                (dom (files w))) \<and>
         (fst (CreateTransactionMigrationFile e m name w) = Returns None \<longrightarrow>
            dom (files (snd (CreateTransactionMigrationFile e m name w))) =
              insert (''./migrator/migrations/'' @ filename_of (Format (Now e)) name)
                (dom (files w))) \<and>
         (MkdirAll_fault e ''./migrator/migrations'' = None \<and>
          Create_fault e (''./migrator/migrations/'' @ filename_of (Format (Now e)) name) = None \<and>
          WriteString_fault e (''./migrator/migrations/'' @ filename_of (Format (Now e)) name) = None \<longrightarrow>
            fst (CreateMigrationFile e m name w) = Returns None \<and>
            fst (CreateTransactionMigrationFile e m name w) = Returns None) \<and>
         (MkdirAll_fault e ''./migrator/migrations'' = None \<and>
          Create_fault e (''./migrator/migrations/'' @ filename_of (Format (Now e)) name) = None \<longrightarrow>
            dom (files (snd (CreateMigrationFile e m name w))) =
              insert (''./migrator/migrations/'' @ filename_of (Format (Now e)) name)
                (dom (files w)) \<and>
            dom (files (snd (CreateTransactionMigrationFile e m name w))) =
              insert (''./migrator/migrations/'' @ filename_of (Format (Now e)) name)
                (dom (files w))) \<and>
         dom (files (snd (CreateMigrationFile e m name w))) \<subseteq>
           insert (''./migrator/migrations/'' @ filename_of (Format (Now e)) name) (dom (files w)) \<and>
         dom (files (snd (CreateTransactionMigrationFile e m name w))) \<subseteq>
           insert (''./migrator/migrations/'' @ filename_of (Format (Now e)) name) (dom (files w))"
proof -
  have name: "filename_of (Format (Now e)) name =
           Format (Now e) @ ''_'' @
             map (\<lambda>c. if c = CHR '' '' then CHR ''_'' else c) name @ ''.go''"
    by (simp only: filename_of_def Sprintf_filename Replace_space)
  note digits = Format_digits [OF assms]
  have len: "length (Format (Now e)) = 14"
    by (simp add: digits)
  have dec: "set (Format (Now e)) \<subseteq> set ''0123456789''"
    unfolding digits using digit_is_decimal by auto
  have written:
    "fst (scaffold template created e name w) = Returns None \<longrightarrow>
       dom (files (snd (scaffold template created e name w))) =
         insert (''./migrator/migrations/'' @ filename_of (Format (Now e)) name) (dom (files w))"
    for template created
    by (simp add: scaffold_unfold Let_def split: option.splits)
  have succeeds:
    "MkdirAll_fault e ''./migrator/migrations'' = None \<and>
     Create_fault e (''./migrator/migrations/'' @ filename_of (Format (Now e)) name) = None \<and>
     WriteString_fault e (''./migrator/migrations/'' @ filename_of (Format (Now e)) name) = None \<longrightarrow>
       fst (scaffold migrationTemplate ''Migration file created: %s'' e name w) = Returns None \<and>
       fst (scaffold transactionMigrationTemplate ''Transaction migration file created: %s''
              e name w) = Returns None"
    by (simp add: scaffold_unfold Let_def)
  have created:
    "MkdirAll_fault e ''./migrator/migrations'' = None \<and>
     Create_fault e (''./migrator/migrations/'' @ filename_of (Format (Now e)) name) = None \<longrightarrow>
       dom (files (snd (scaffold migrationTemplate ''Migration file created: %s'' e name w))) =
         insert (''./migrator/migrations/'' @ filename_of (Format (Now e)) name) (dom (files w)) \<and>
       dom (files (snd (scaffold transactionMigrationTemplate
                          ''Transaction migration file created: %s'' e name w))) =
         insert (''./migrator/migrations/'' @ filename_of (Format (Now e)) name) (dom (files w))"
    by (simp add: scaffold_unfold Let_def split: option.splits)
  have only:
    "dom (files (snd (scaffold template created e name w))) \<subseteq>
       insert (''./migrator/migrations/'' @ filename_of (Format (Now e)) name) (dom (files w))"
    for template created
    by (auto simp add: scaffold_unfold Let_def split: option.splits if_splits)
  show ?thesis
    unfolding CreateMigrationFile_def CreateTransactionMigrationFile_def
    by (intro conjI name len dec digits written succeeds created only)
qed

theorem scaffold_file_name_witness:
  "valid_clock (Now calm) \<and>
   MkdirAll_fault calm ''./migrator/migrations'' = None \<and>
   Create_fault calm ''./migrator/migrations/20240803120000_add_users.go'' = None \<and>
   WriteString_fault calm ''./migrator/migrations/20240803120000_add_users.go'' = None \<and>
   filename_of (Format (Now calm)) ''add users'' = ''20240803120000_add_users.go'' \<and>
   length (Format (Now calm)) = 14 \<and>
   fst (CreateMigrationFile calm None ''add users'' initial) = Returns None \<and>
   fst (CreateTransactionMigrationFile calm None ''add users'' initial) = Returns None \<and>
   dom (files (snd (CreateMigrationFile calm None ''add users'' initial))) =
     {''./migrator/migrations/20240803120000_add_users.go''} \<and>
   dom (files (snd (CreateTransactionMigrationFile calm None ''add users'' initial))) =
     {''./migrator/migrations/20240803120000_add_users.go''}"
proof -
  have quiet: "MkdirAll_fault calm p = None" "Create_fault calm p = None"
    "WriteString_fault calm p = None" for p
    by (simp_all add: calm_def)
  have start: "files initial = Map.empty"
    by (simp add: initial_def)
  note at_calm = scaffold_file_name [OF valid_clock_calm, of "''add users''" None initial]
  from at_calm have name: "filename_of (Format (Now calm)) ''add users'' =
      Format (Now calm) @ ''_'' @
        map (\<lambda>c. if c = CHR '' '' then CHR ''_'' else c) ''add users'' @ ''.go''"
    by (rule conjunct1)
  from at_calm have len: "length (Format (Now calm)) = 14"
    by blast
  from at_calm have ok:
    "fst (CreateMigrationFile calm None ''add users'' initial) = Returns None"
    "fst (CreateTransactionMigrationFile calm None ''add users'' initial) = Returns None"
    by (simp_all add: quiet)
  from at_calm have written:
    "dom (files (snd (CreateMigrationFile calm None ''add users'' initial))) =
       insert (''./migrator/migrations/'' @ filename_of (Format (Now calm)) ''add users'')
         (dom (files initial))"
    "dom (files (snd (CreateTransactionMigrationFile calm None ''add users'' initial))) =
       insert (''./migrator/migrations/'' @ filename_of (Format (Now calm)) ''add users'')
         (dom (files initial))"
    by (simp_all add: quiet)
  show ?thesis
    using valid_clock_calm quiet name len ok written start
    by (simp add: Format_calm)
qed

text \<open>
  C6, as the code has it. Both methods return the error of \<open>os.MkdirAll\<close>, of
  \<open>os.Create\<close> or of \<open>WriteString\<close>, whichever fails first. Where none of the three
  fails they return \<open>nil\<close>, and that does not depend on the files present: a second
  call in the same second computes the same path, \<open>os.Create\<close> truncates the file of
  the first call, and the second call succeeds and replaces the content.
\<close>

theorem scaffold_fails_or_overwrites:
  "(MkdirAll_fault e ''./migrator/migrations'' = Some err \<longrightarrow>
      fst (CreateMigrationFile e m name w) = Returns (Some err) \<and>
      fst (CreateTransactionMigrationFile e m name w) = Returns (Some err)) \<and>
   (MkdirAll_fault e ''./migrator/migrations'' = None \<and>
    Create_fault e (''./migrator/migrations/'' @ filename_of (Format (Now e)) name) = Some err \<longrightarrow>
      fst (CreateMigrationFile e m name w) = Returns (Some err) \<and>
      fst (CreateTransactionMigrationFile e m name w) = Returns (Some err)) \<and>
   (MkdirAll_fault e ''./migrator/migrations'' = None \<and>
    Create_fault e (''./migrator/migrations/'' @ filename_of (Format (Now e)) name) = None \<and>
    WriteString_fault e (''./migrator/migrations/'' @ filename_of (Format (Now e)) name) = Some err \<longrightarrow>
      fst (CreateMigrationFile e m name w) = Returns (Some err) \<and>
      fst (CreateTransactionMigrationFile e m name w) = Returns (Some err)) \<and>
   (MkdirAll_fault e ''./migrator/migrations'' = None \<and>
    Create_fault e (''./migrator/migrations/'' @ filename_of (Format (Now e)) name) = None \<and>
    WriteString_fault e (''./migrator/migrations/'' @ filename_of (Format (Now e)) name) = None \<longrightarrow>
      fst (CreateMigrationFile e m name w) = Returns None \<and>
      fst (CreateTransactionMigrationFile e m name w) = Returns None \<and>
      fst (CreateMigrationFile e m name (snd (CreateMigrationFile e m name w))) = Returns None \<and>
      fst (CreateTransactionMigrationFile e m name (snd (CreateMigrationFile e m name w))) =
        Returns None \<and>
      files (snd (CreateMigrationFile e m name w))
          (''./migrator/migrations/'' @ filename_of (Format (Now e)) name) =
        Some (Sprintf migrationTemplate [Format (Now e)]) \<and>
      files (snd (CreateTransactionMigrationFile e m name (snd (CreateMigrationFile e m name w))))
          (''./migrator/migrations/'' @ filename_of (Format (Now e)) name) =
        Some (Sprintf transactionMigrationTemplate [Format (Now e)]))"
  by (simp add: CreateMigrationFile_def CreateTransactionMigrationFile_def scaffold_unfold Let_def)



theorem scaffold_fails_or_overwrites_witness:
  "fst (CreateMigrationFile no_mkdir None ''add users'' initial) =
     Returns (Some (Error ''permission denied'')) \<and>
   fst (CreateMigrationFile read_only None ''add users'' initial) =
     Returns (Some (Error ''permission denied'')) \<and>
   fst (CreateTransactionMigrationFile disk_full None ''add users'' initial) =
     Returns (Some (Error ''no space left on device'')) \<and>
   fst (CreateMigrationFile calm None ''add users'' initial) = Returns None \<and>
   fst (CreateMigrationFile calm None ''add users''
         (snd (CreateMigrationFile calm None ''add users'' initial))) = Returns None"
  using scaffold_fails_or_overwrites
          [of no_mkdir "Error ''permission denied''" None "''add users''" initial]
        scaffold_fails_or_overwrites
          [of read_only "Error ''permission denied''" None "''add users''" initial]
        scaffold_fails_or_overwrites
          [of disk_full "Error ''no space left on device''" None "''add users''" initial]
        scaffold_fails_or_overwrites
          [of calm "Error []" None "''add users''" initial]
  by (simp add: no_mkdir_def read_only_def disk_full_def calm_def)

text \<open>
  C6 as the specification states it fails: with the clock at 2024-08-03 12:00:00 a
  first call creates \<open>20240803120000_add_users.go\<close>; a second call at the same clock
  finds that file and returns \<open>nil\<close>, not an error.
\<close>

theorem second_scaffold_in_the_same_second_succeeds:
  "files (snd (CreateMigrationFile calm None ''add users'' initial))
     ''./migrator/migrations/20240803120000_add_users.go'' \<noteq> None \<and>
   fst (CreateMigrationFile calm None ''add users''
         (snd (CreateMigrationFile calm None ''add users'' initial))) = Returns None \<and>
   fst (CreateTransactionMigrationFile calm None ''add users''
         (snd (CreateTransactionMigrationFile calm None ''add users'' initial))) = Returns None"
proof -
  have name: "filename_of (Format (Now calm)) ''add users'' = ''20240803120000_add_users.go''"
    by (simp add: filename_of_def Format_calm)
  have quiet: "MkdirAll_fault calm = (\<lambda>p. None)" "Create_fault calm = (\<lambda>p. None)"
    "WriteString_fault calm = (\<lambda>p. None)"
    by (simp_all add: calm_def)
  show ?thesis
    by (simp add: CreateMigrationFile_def CreateTransactionMigrationFile_def scaffold_unfold
          Let_def name quiet)
qed

text \<open>Reading back what \<open>source_text\<close> has written.\<close>

lemma split_lines_line: "CHR 0x0A \<notin> set a \<Longrightarrow> split_lines a = [a]"
  by (induction a) auto

lemma split_lines_append:
  "CHR 0x0A \<notin> set a \<Longrightarrow> split_lines (a @ CHR 0x0A # b) = a # split_lines b"
  by (induction a) auto

lemma unindent_source_line:
  assumes "plain_line l"
  shows "unindent (source_line l) = l"
proof -
  obtain n s where l: "l = (n, s)" by (cases l)
  from assms l have stop: "takeWhile (\<lambda>c. c = CHR 0x09) s = []"
    by (cases s) (auto simp add: plain_line_def)
  then have keep: "dropWhile (\<lambda>c. c = CHR 0x09) s = s"
    by (cases s) (auto split: if_splits)
  have "takeWhile (\<lambda>c. c = CHR 0x09) (replicate n (CHR 0x09) @ s) = replicate n (CHR 0x09)"
    using stop by (induction n) simp_all
  moreover have "dropWhile (\<lambda>c. c = CHR 0x09) (replicate n (CHR 0x09) @ s) = s"
    using keep by (induction n) simp_all
  ultimately show ?thesis
    by (simp add: unindent_def source_line_def l)
qed

lemma source_line_one_line: "plain_line l \<Longrightarrow> CHR 0x0A \<notin> set (source_line l)"
  by (auto simp add: plain_line_def source_line_def)

lemma source_text_Cons:
  "ls \<noteq> [] \<Longrightarrow> source_text (l # ls) = source_line l @ CHR 0x0A # source_text ls"
  by (cases ls) simp_all

lemma source_lines_source_text:
  assumes "ls \<noteq> []" and "list_all plain_line ls"
  shows "source_lines (source_text ls) = ls"
  using assms
proof (induction ls rule: source_text.induct)
  case 1
  then show ?case by simp
next
  case (2 l)
  then show ?case
    by (simp add: source_lines_def split_lines_line source_line_one_line unindent_source_line)
next
  case (3 l k ls)
  then have "source_lines (source_text (k # ls)) = k # ls" by simp
  with "3.prems" show ?case
    by (simp add: source_lines_def split_lines_append source_line_one_line unindent_source_line)
qed

text \<open>Substituting into a template whose only verb is on one line.\<close>

lemma source_text_head:
  "source_text (l # ys) = source_line l @ concat (map (\<lambda>k. CHR 0x0A # source_line k) ys)"
  by (induction ys arbitrary: l) (simp_all add: source_text_Cons)

lemma source_text_focus:
  "source_text (xs @ l # ys) =
     concat (map (\<lambda>k. source_line k @ [CHR 0x0A]) xs) @ source_line l @
     concat (map (\<lambda>k. CHR 0x0A # source_line k) ys)"
proof (induction xs)
  case Nil
  show ?case by (simp add: source_text_head)
next
  case (Cons x xs)
  have "source_text (x # (xs @ l # ys)) = source_line x @ CHR 0x0A # source_text (xs @ l # ys)"
    by (rule source_text_Cons) simp
  with Cons show ?case by simp
qed

lemma Sprintf_plain: "CHR ''%'' \<notin> set b \<Longrightarrow> Sprintf b xs = b"
  by (induction b xs rule: Sprintf.induct) auto

lemma Sprintf_one_verb:
  assumes "CHR ''%'' \<notin> set a" and "CHR ''%'' \<notin> set b"
  shows "Sprintf (a @ CHR ''%'' # CHR ''s'' # b) [x] = a @ x @ b"
  using assms(1)
proof (induction a)
  case Nil
  show ?case using assms(2) by (simp add: Sprintf_plain)
next
  case (Cons c a)
  obtain d fmt where rest: "a @ CHR ''%'' # CHR ''s'' # b = d # fmt" by (cases a) auto
  from Cons.prems have other: "c \<noteq> CHR ''%''" by auto
  have "Sprintf ((c # a) @ CHR ''%'' # CHR ''s'' # b) [x] = Sprintf (c # d # fmt) [x]"
    by (simp only: append_Cons rest)
  also from other have "\<dots> = c # Sprintf (d # fmt) [x]"
    by simp
  also have "\<dots> = c # Sprintf (a @ CHR ''%'' # CHR ''s'' # b) [x]"
    by (simp only: rest)
  also from Cons have "\<dots> = (c # a) @ x @ b"
    by simp
  finally show ?case .
qed

lemma Sprintf_source_text:
  assumes "list_all (\<lambda>k. CHR ''%'' \<notin> set (snd k)) xs"
    and "list_all (\<lambda>k. CHR ''%'' \<notin> set (snd k)) ys"
    and "CHR ''%'' \<notin> set a" and "CHR ''%'' \<notin> set b"
  shows "Sprintf (source_text (xs @ (n, a @ CHR ''%'' # CHR ''s'' # b) # ys)) [x] =
           source_text (xs @ (n, a @ x @ b) # ys)"
proof -
  define P where "P = concat (map (\<lambda>k. source_line k @ [CHR 0x0A]) xs) @ replicate n (CHR 0x09) @ a"
  define Q where "Q = b @ concat (map (\<lambda>k. CHR 0x0A # source_line k) ys)"
  have template: "source_text (xs @ (n, a @ CHR ''%'' # CHR ''s'' # b) # ys) =
                    P @ CHR ''%'' # CHR ''s'' # Q"
    by (simp add: source_text_focus source_line_def P_def Q_def)
  have content: "source_text (xs @ (n, a @ x @ b) # ys) = P @ x @ Q"
    by (simp add: source_text_focus source_line_def P_def Q_def)
  have "CHR ''%'' \<notin> set P" and "CHR ''%'' \<notin> set Q"
    using assms by (auto simp add: P_def Q_def list_all_iff source_line_def)
  then have "Sprintf (P @ CHR ''%'' # CHR ''s'' # Q) [x] = P @ x @ Q"
    by (rule Sprintf_one_verb)
  with template content show ?thesis by simp
qed

text \<open>Searching across a block of characters that the mark does not contain.\<close>

lemma drop_within: "n \<le> length xs \<Longrightarrow> drop n (xs @ ys) = drop n xs @ ys"
  by simp

lemma prefix_over_block:
  assumes "set p \<inter> set d = {}" and "d \<noteq> []"
  shows "prefix p (a @ d @ b) \<longleftrightarrow> prefix p a"
proof
  assume "prefix p a"
  then show "prefix p (a @ d @ b)" by (rule prefix_prefix)
next
  assume long: "prefix p (a @ d @ b)"
  show "prefix p a"
  proof (rule ccontr)
    assume short: "\<not> prefix p a"
    with long prefix_append [of p a "d @ b"]
    obtain us where us: "p = a @ us" "prefix us (d @ b)" by blast
    from short us(1) have "us \<noteq> []" by auto
    then obtain u us' where u: "us = u # us'" by (cases us) auto
    from assms(2) obtain x d' where d: "d = x # d'" by (cases d) auto
    from us(2) u d have "u = x" by simp
    with us(1) u have "x \<in> set p" by simp
    with assms(1) d show False by auto
  qed
qed

lemma not_prefix_of_block:
  assumes "set p \<inter> set (x # d) = {}" and "p \<noteq> []"
  shows "\<not> prefix p (x # d @ b)"
  using assms by (cases p) auto

lemma occurrences_skip:
  assumes "set p \<inter> set d = {}" and "p \<noteq> []"
  shows "occurrences p (d @ b) = occurrences p b"
  using assms(1)
proof (induction d)
  case Nil
  show ?case by simp
next
  case (Cons x d)
  from Cons.prems assms(2) have "\<not> prefix p (x # d @ b)"
    by (rule not_prefix_of_block)
  moreover from Cons.prems have "set p \<inter> set d = {}" by auto
  ultimately show ?case using Cons.IH by simp
qed

lemma occurrences_around:
  assumes "set p \<inter> set d = {}" and "d \<noteq> []" and "p \<noteq> []"
  shows "occurrences p (a @ d @ b) = occurrences p a + occurrences p b"
proof (induction a)
  case Nil
  show ?case using assms by (simp add: occurrences_skip)
next
  case (Cons x a)
  have "prefix p ((x # a) @ d @ b) \<longleftrightarrow> prefix p (x # a)"
    using assms(1,2) by (rule prefix_over_block)
  then show ?case using Cons.IH by simp
qed

lemma cut_skip:
  assumes "set sep \<inter> set d = {}" and "sep \<noteq> []"
  shows "cut sep (d @ b) = map_option (\<lambda>(x, y). (d @ x, y)) (cut sep b)"
  using assms(1)
proof (induction d)
  case Nil
  show ?case by (simp add: option.map_ident case_prod_unfold cong: option.map_cong)
next
  case (Cons x d)
  from Cons.prems assms(2) have "\<not> prefix sep (x # d @ b)"
    by (rule not_prefix_of_block)
  moreover from Cons.prems have "set sep \<inter> set d = {}" by auto
  ultimately show ?case using Cons.IH
    by (simp add: option.map_comp comp_def case_prod_unfold)
qed

lemma cut_around:
  assumes "set sep \<inter> set d = {}" and "d \<noteq> []" and "sep \<noteq> []"
  shows "cut sep (a @ d @ b) =
           (case cut sep a of
              Some (x, y) \<Rightarrow> Some (x, y @ d @ b)
            | None \<Rightarrow> map_option (\<lambda>(x, y). (a @ d @ x, y)) (cut sep b))"
proof (induction a)
  case Nil
  show ?case using assms by (simp add: cut_skip)
next
  case (Cons c a)
  have over: "prefix sep ((c # a) @ d @ b) \<longleftrightarrow> prefix sep (c # a)"
    using assms(1,2) by (rule prefix_over_block)
  show ?case
  proof (cases "prefix sep (c # a)")
    case True
    then have "length sep \<le> length (c # a)" by (rule prefix_length_le)
    then have "drop (length sep) ((c # a) @ d @ b) = drop (length sep) (c # a) @ d @ b"
      by (rule drop_within)
    with True over show ?thesis by simp
  next
    case False
    with over Cons.IH show ?thesis
      by (simp add: option.map_comp comp_def case_prod_unfold split: option.splits)
  qed
qed

lemma between_value:
  assumes "set opening \<inter> set d = {}" and "d \<noteq> []" and "opening \<noteq> []"
    and "map_option snd (cut opening a) = Some []" and "q \<notin> set d"
  shows "between opening [q] (a @ d @ q # b) = Some d"
proof -
  from assms(4) obtain x where "cut opening a = Some (x, [])" by auto
  then have "cut opening (a @ d @ q # b) = Some (x, d @ q # b)"
    by (simp add: cut_around [OF assms(1,2,3)])
  moreover from assms(5) have "cut [q] (d @ q # b) = Some (d, b)"
    by (simp add: cut_skip)
  ultimately show ?thesis by (simp add: between_def)
qed

lemma lines_between_skip:
  assumes "opening \<notin> set xs" and "l \<noteq> opening"
  shows "lines_between opening closing (xs @ l # ys) = lines_between opening closing ys"
proof -
  have "dropWhile (\<lambda>k. k \<noteq> opening) (xs @ l # ys) = dropWhile (\<lambda>k. k \<noteq> opening) (l # ys)"
    by (rule dropWhile_append2) (use assms(1) in auto)
  with assms(2) show ?thesis
    by (simp add: lines_between_def)
qed

lemma apart_from_digits:
  assumes "list_all (\<lambda>c. c \<notin> set ''0123456789'') p" and "set d \<subseteq> set ''0123456789''"
  shows "set p \<inter> set d = {}"
  using assms unfolding list_all_iff by blast

lemma ID_line:
  assumes "set ts \<subseteq> set ''0123456789''" and "ts \<noteq> []"
  shows \<open>between ''"'' ''"'' (''ID:          "'' @ ts @ ''",'') = Some ts\<close>
    and \<open>occurrences ''RegisterMigration('' (''ID:          "'' @ ts @ ''",'') = 0\<close>
    and \<open>plain_line (2, ''ID:          "'' @ ts @ ''",'')\<close>
proof -
  have "list_all (\<lambda>c. c \<notin> set ''0123456789'') [CHR 0x22]"
    and "list_all (\<lambda>c. c \<notin> set ''0123456789'') ''RegisterMigration(''"
    and "list_all (\<lambda>c. c \<notin> set ''0123456789'') [CHR 0x0A]"
    by simp_all
  with assms(1) have quote: "set [CHR 0x22] \<inter> set ts = {}"
    and call: "set ''RegisterMigration('' \<inter> set ts = {}"
    and newline: "set [CHR 0x0A] \<inter> set ts = {}"
    by (simp_all only: apart_from_digits)
  have "map_option snd (cut [CHR 0x22] (''ID:          '' @ [CHR 0x22])) = Some []"
    by simp
  with quote assms(2)
  have "between [CHR 0x22] [CHR 0x22] ((''ID:          '' @ [CHR 0x22]) @ ts @ CHR 0x22 # '','') = Some ts"
    by (intro between_value) simp_all
  then show \<open>between ''"'' ''"'' (''ID:          "'' @ ts @ ''",'') = Some ts\<close>
    by simp
  from call assms(2)
  have "occurrences ''RegisterMigration('' ((''ID:          '' @ [CHR 0x22]) @ ts @ CHR 0x22 # '','') =
          occurrences ''RegisterMigration('' (''ID:          '' @ [CHR 0x22]) +
          occurrences ''RegisterMigration('' (CHR 0x22 # '','')"
    by (intro occurrences_around) simp_all
  then show \<open>occurrences ''RegisterMigration('' (''ID:          "'' @ ts @ ''",'') = 0\<close>
    by simp
  from newline show \<open>plain_line (2, ''ID:          "'' @ ts @ ''",'')\<close>
    by (simp add: plain_line_def)
qed

text \<open>The lines of a generated file, and what the reader finds in them.\<close>

lemma content_lines:
  assumes focus: \<open>L = take 9 L @ (2, ''ID:          "'' @ CHR ''%'' # CHR ''s'' # ''",'') # drop 10 L\<close>
    and verbs: "list_all (\<lambda>k. CHR ''%'' \<notin> set (snd k)) (take 9 L)"
               "list_all (\<lambda>k. CHR ''%'' \<notin> set (snd k)) (drop 10 L)"
    and plain: "list_all plain_line (take 9 L)" "list_all plain_line (drop 10 L)"
    and digits: "set ts \<subseteq> set ''0123456789''" "ts \<noteq> []"
  shows \<open>source_lines (Sprintf (source_text L) [ts]) =
           take 9 L @ (2, ''ID:          "'' @ ts @ ''",'') # drop 10 L\<close>
proof -
  have \<open>Sprintf (source_text (take 9 L @ (2, ''ID:          "'' @ CHR ''%'' # CHR ''s'' # ''",'') # drop 10 L)) [ts] =
          source_text (take 9 L @ (2, ''ID:          "'' @ ts @ ''",'') # drop 10 L)\<close>
    by (rule Sprintf_source_text) (use verbs in simp_all)
  with focus have \<open>Sprintf (source_text L) [ts] =
          source_text (take 9 L @ (2, ''ID:          "'' @ ts @ ''",'') # drop 10 L)\<close>
    by (simp only:)
  moreover have \<open>source_lines (source_text (take 9 L @ (2, ''ID:          "'' @ ts @ ''",'') # drop 10 L)) =
          take 9 L @ (2, ''ID:          "'' @ ts @ ''",'') # drop 10 L\<close>
    by (rule source_lines_source_text) (use plain ID_line(3) [OF digits] in simp_all)
  ultimately show ?thesis by (simp only:)
qed

lemma reading_content:
  assumes lines: \<open>source_lines content = X @ (2, ''ID:          "'' @ ts @ ''",'') # Y\<close>
    and digits: "set ts \<subseteq> set ''0123456789''" "ts \<noteq> []"
    and calls: "count_in ''RegisterMigration('' X + count_in ''RegisterMigration('' Y = 1"
    and ids: "filter (\<lambda>l. prefix ''ID:'' (snd l)) X = []" "filter (\<lambda>l. prefix ''ID:'' (snd l)) Y = []"
    and before: "(2, ''Migrate: func(tx *gorm.DB) error {'') \<notin> set X"
                "(2, ''Rollback: func(tx *gorm.DB) error {'') \<notin> set X"
  shows "count_in ''RegisterMigration('' (source_lines content) = 1"
    and "ID_field content = Some ts"
    and "Migrate_body content =
           lines_between (2, ''Migrate: func(tx *gorm.DB) error {'') (2, ''},'') Y"
    and "Rollback_body content =
           lines_between (2, ''Rollback: func(tx *gorm.DB) error {'') (2, ''},'') Y"
proof -
  note line = ID_line [OF digits]
  from calls line(2) show "count_in ''RegisterMigration('' (source_lines content) = 1"
    by (simp add: lines count_in_def)
  from ids line(1) show "ID_field content = Some ts"
    by (simp add: ID_field_def lines)
  from before(1) show "Migrate_body content =
           lines_between (2, ''Migrate: func(tx *gorm.DB) error {'') (2, ''},'') Y"
    unfolding Migrate_body_def lines by (rule lines_between_skip) simp
  from before(2) show "Rollback_body content =
           lines_between (2, ''Rollback: func(tx *gorm.DB) error {'') (2, ''},'') Y"
    unfolding Rollback_body_def lines by (rule lines_between_skip) simp
qed

lemma migrationTemplate_lines_facts:
  \<open>migrationTemplate_lines =
     take 9 migrationTemplate_lines @
       (2, ''ID:          "'' @ CHR ''%'' # CHR ''s'' # ''",'') # drop 10 migrationTemplate_lines\<close>
  "list_all (\<lambda>k. CHR ''%'' \<notin> set (snd k)) (take 9 migrationTemplate_lines)"
  "list_all (\<lambda>k. CHR ''%'' \<notin> set (snd k)) (drop 10 migrationTemplate_lines)"
  "list_all plain_line (take 9 migrationTemplate_lines)"
  "list_all plain_line (drop 10 migrationTemplate_lines)"
  "count_in ''RegisterMigration('' (take 9 migrationTemplate_lines) +
     count_in ''RegisterMigration('' (drop 10 migrationTemplate_lines) = 1"
  "filter (\<lambda>l. prefix ''ID:'' (snd l)) (take 9 migrationTemplate_lines) = []"
  "filter (\<lambda>l. prefix ''ID:'' (snd l)) (drop 10 migrationTemplate_lines) = []"
  "(2, ''Migrate: func(tx *gorm.DB) error {'') \<notin> set (take 9 migrationTemplate_lines)"
  "(2, ''Rollback: func(tx *gorm.DB) error {'') \<notin> set (take 9 migrationTemplate_lines)"
  "lines_between (2, ''Migrate: func(tx *gorm.DB) error {'') (2, ''},'')
     (drop 10 migrationTemplate_lines) =
     Some [(3, ''// Your migration logic goes here.''),
           (3, ''return nil // Replace with actual code'')]"
  "lines_between (2, ''Rollback: func(tx *gorm.DB) error {'') (2, ''},'')
     (drop 10 migrationTemplate_lines) =
     Some [(3, ''// Your rollback logic goes here.''),
           (3, ''return nil // Replace with actual code'')]"
  by code_simp+

lemma transactionMigrationTemplate_lines_facts:
  \<open>transactionMigrationTemplate_lines =
     take 9 transactionMigrationTemplate_lines @
       (2, ''ID:          "'' @ CHR ''%'' # CHR ''s'' # ''",'') #
       drop 10 transactionMigrationTemplate_lines\<close>
  "list_all (\<lambda>k. CHR ''%'' \<notin> set (snd k)) (take 9 transactionMigrationTemplate_lines)"
  "list_all (\<lambda>k. CHR ''%'' \<notin> set (snd k)) (drop 10 transactionMigrationTemplate_lines)"
  "list_all plain_line (take 9 transactionMigrationTemplate_lines)"
  "list_all plain_line (drop 10 transactionMigrationTemplate_lines)"
  "count_in ''RegisterMigration('' (take 9 transactionMigrationTemplate_lines) +
     count_in ''RegisterMigration('' (drop 10 transactionMigrationTemplate_lines) = 1"
  "filter (\<lambda>l. prefix ''ID:'' (snd l)) (take 9 transactionMigrationTemplate_lines) = []"
  "filter (\<lambda>l. prefix ''ID:'' (snd l)) (drop 10 transactionMigrationTemplate_lines) = []"
  "(2, ''Migrate: func(tx *gorm.DB) error {'') \<notin> set (take 9 transactionMigrationTemplate_lines)"
  "(2, ''Rollback: func(tx *gorm.DB) error {'') \<notin> set (take 9 transactionMigrationTemplate_lines)"
  "case lines_between (2, ''Migrate: func(tx *gorm.DB) error {'') (2, ''},'')
          (drop 10 transactionMigrationTemplate_lines) of
     Some body \<Rightarrow> nested_transaction body
   | None \<Rightarrow> False"
  "case lines_between (2, ''Rollback: func(tx *gorm.DB) error {'') (2, ''},'')
          (drop 10 transactionMigrationTemplate_lines) of
     Some body \<Rightarrow> nested_transaction body
   | None \<Rightarrow> False"
  by code_simp+

lemma scaffold_written:
  assumes "fst (scaffold template created e name w) = Returns None"
  shows "files (snd (scaffold template created e name w))
           (''./migrator/migrations/'' @ filename_of (Format (Now e)) name) =
         Some (Sprintf template [Format (Now e)])"
  using assms by (simp add: scaffold_unfold Let_def split: option.splits)

text \<open>
  C5. On a clock showing a four-digit year, the file a successful \<open>CreateMigrationFile\<close>
  has written, read line by line, holds exactly one call of \<open>RegisterMigration\<close>; its
  one \<open>ID\<close> field is the timestamp; the body of \<open>Migrate\<close> and the body of \<open>Rollback\<close>
  are a comment and \<open>return nil\<close>. The file of \<open>CreateTransactionMigrationFile\<close> has the
  same call and \<open>ID\<close>, and each of its two bodies is one nested transaction with two
  placeholder statements.
\<close>

theorem generated_file_content:
  assumes "valid_clock (Now e)"
  shows "(fst (CreateMigrationFile e m name w) = Returns None \<longrightarrow>
            (\<exists>content.
               files (snd (CreateMigrationFile e m name w))
                 (''./migrator/migrations/'' @ filename_of (Format (Now e)) name) = Some content \<and>
               count_in ''RegisterMigration('' (source_lines content) = 1 \<and>
               ID_field content = Some (Format (Now e)) \<and>
               Migrate_body content =
                 Some [(3, ''// Your migration logic goes here.''),
                       (3, ''return nil // Replace with actual code'')] \<and>
               Rollback_body content =
                 Some [(3, ''// Your rollback logic goes here.''),
                       (3, ''return nil // Replace with actual code'')])) \<and>
         (fst (CreateTransactionMigrationFile e m name w) = Returns None \<longrightarrow>
            (\<exists>content mb rb.
               files (snd (CreateTransactionMigrationFile e m name w))
                 (''./migrator/migrations/'' @ filename_of (Format (Now e)) name) = Some content \<and>
               count_in ''RegisterMigration('' (source_lines content) = 1 \<and>
               ID_field content = Some (Format (Now e)) \<and>
               Migrate_body content = Some mb \<and> nested_transaction mb \<and>
               Rollback_body content = Some rb \<and> nested_transaction rb))"
proof (intro conjI impI)
  define ts where "ts = Format (Now e)"
  have "set ts \<subseteq> set ''0123456789''"
    unfolding ts_def Format_digits [OF assms] using digit_is_decimal by auto
  moreover have "ts \<noteq> []"
    unfolding ts_def Format_digits [OF assms] by simp
  ultimately have digits: "set ts \<subseteq> set ''0123456789''" "ts \<noteq> []" .
  {
    assume "fst (CreateMigrationFile e m name w) = Returns None"
    then have written: "files (snd (CreateMigrationFile e m name w))
        (''./migrator/migrations/'' @ filename_of (Format (Now e)) name) =
        Some (Sprintf migrationTemplate [ts])"
      unfolding CreateMigrationFile_def ts_def by (rule scaffold_written)
    note lines = content_lines [OF migrationTemplate_lines_facts(1-5) digits,
        folded migrationTemplate_def]
    note seen = reading_content [OF lines digits migrationTemplate_lines_facts(6-10)]
    from written seen migrationTemplate_lines_facts(11,12)
    show "\<exists>content.
            files (snd (CreateMigrationFile e m name w))
              (''./migrator/migrations/'' @ filename_of (Format (Now e)) name) = Some content \<and>
            count_in ''RegisterMigration('' (source_lines content) = 1 \<and>
            ID_field content = Some (Format (Now e)) \<and>
            Migrate_body content =
              Some [(3, ''// Your migration logic goes here.''),
                    (3, ''return nil // Replace with actual code'')] \<and>
            Rollback_body content =
              Some [(3, ''// Your rollback logic goes here.''),
                    (3, ''return nil // Replace with actual code'')]"
      by (simp add: ts_def)
  }
  {
    assume "fst (CreateTransactionMigrationFile e m name w) = Returns None"
    then have written: "files (snd (CreateTransactionMigrationFile e m name w))
        (''./migrator/migrations/'' @ filename_of (Format (Now e)) name) =
        Some (Sprintf transactionMigrationTemplate [ts])"
      unfolding CreateTransactionMigrationFile_def ts_def by (rule scaffold_written)
    note lines = content_lines [OF transactionMigrationTemplate_lines_facts(1-5) digits,
        folded transactionMigrationTemplate_def]
    note seen = reading_content [OF lines digits transactionMigrationTemplate_lines_facts(6-10)]
    from transactionMigrationTemplate_lines_facts(11) seen(3)
    obtain mb where mb: "Migrate_body (Sprintf transactionMigrationTemplate [ts]) = Some mb"
        "nested_transaction mb"
      by (auto split: option.splits)
    from transactionMigrationTemplate_lines_facts(12) seen(4)
    obtain rb where rb: "Rollback_body (Sprintf transactionMigrationTemplate [ts]) = Some rb"
        "nested_transaction rb"
      by (auto split: option.splits)
    from written seen(1,2) mb rb
    show "\<exists>content mb rb.
            files (snd (CreateTransactionMigrationFile e m name w))
              (''./migrator/migrations/'' @ filename_of (Format (Now e)) name) = Some content \<and>
            count_in ''RegisterMigration('' (source_lines content) = 1 \<and>
            ID_field content = Some (Format (Now e)) \<and>
            Migrate_body content = Some mb \<and> nested_transaction mb \<and>
            Rollback_body content = Some rb \<and> nested_transaction rb"
      by (auto simp add: ts_def)
  }
qed

theorem generated_file_content_witness:
  "valid_clock (Now calm) \<and>
   fst (CreateMigrationFile calm None ''add users'' initial) = Returns None \<and>
   fst (CreateTransactionMigrationFile calm None ''add users'' initial) = Returns None \<and>
   ID_field (the (files (snd (CreateMigrationFile calm None ''add users'' initial))
       ''./migrator/migrations/20240803120000_add_users.go'')) = Some ''20240803120000'' \<and>
   Migrate_body (the (files (snd (CreateMigrationFile calm None ''add users'' initial))
       ''./migrator/migrations/20240803120000_add_users.go'')) =
     Some [(3, ''// Your migration logic goes here.''),
           (3, ''return nil // Replace with actual code'')] \<and>
   ID_field (the (files (snd (CreateTransactionMigrationFile calm None ''add users'' initial))
       ''./migrator/migrations/20240803120000_add_users.go'')) = Some ''20240803120000''"
proof -
  have name: "filename_of ''20240803120000'' ''add users'' = ''20240803120000_add_users.go''"
    by (simp add: filename_of_def)
  have quiet: "MkdirAll_fault calm = (\<lambda>p. None)" "Create_fault calm = (\<lambda>p. None)"
    "WriteString_fault calm = (\<lambda>p. None)"
    by (simp_all add: calm_def)
  have ok: "fst (CreateMigrationFile calm None ''add users'' initial) = Returns None"
    "fst (CreateTransactionMigrationFile calm None ''add users'' initial) = Returns None"
    by (simp_all add: CreateMigrationFile_def CreateTransactionMigrationFile_def
          scaffold_unfold Let_def quiet)
  from generated_file_content [OF valid_clock_calm, of None "''add users''" initial] ok
  show ?thesis
    using valid_clock_calm by (auto simp add: name Format_calm)
qed

end
